theory Spec2Isabelle
  imports Complex_Main "HOL-Library.Word"
begin

section \<open>Python values used by app.py\<close>

text \<open>
  Strings are ASCII character lists. Python integers are unbounded, so they are HOL
  integers. \<open>str(n)\<close> on an integer, which is also what an f-string field
  \<open>{height}\<close> produces, is the decimal numeral with a leading minus sign for
  negative values.
\<close>

definition digit_char :: "nat \<Rightarrow> char" where
  "digit_char d = char_of (48 + d)"

function str_nat :: "nat \<Rightarrow> string" where
  "str_nat n = (if n < 10 then [digit_char n] else str_nat (n div 10) @ [digit_char (n mod 10)])"
  by pat_completeness auto
termination
  by (relation "measure (\<lambda>n. n)") auto

declare str_nat.simps [simp del]

definition str_int :: "int \<Rightarrow> string" where
  "str_int i = (if i < 0 then CHR ''-'' # str_nat (nat (- i)) else str_nat (nat i))"

text \<open>\<open>os.path.join(a, b)\<close> on POSIX, for two components.\<close>

definition path_join :: "string \<Rightarrow> string \<Rightarrow> string" where
  "path_join a b =
     (if b \<noteq> [] \<and> hd b = CHR ''/'' then b
      else if a = [] \<or> last a = CHR ''/'' then a @ b
      else a @ ''/'' @ b)"

section \<open>The options handed to the extractor\<close>

text \<open>
  The dictionary \<open>ydl_opts\<close> given to \<open>YoutubeDL\<close>. A key that one of the
  two download functions does not set is \<open>None\<close>.
\<close>

record postprocessor =
  pp_key :: string
  preferredcodec :: string
  preferredquality :: string

record ydl_opts =
  opt_format :: string
  outtmpl :: string
  merge_output_format :: "string option"
  quiet :: bool
  postprocessor_args :: "string list option"
  postprocessors :: "postprocessor list option"

text \<open>
  Lines 76-79 of app.py: the format selector of \<open>download_video\<close>. The test
  \<open>if height:\<close> is Python truthiness: \<open>None\<close> and \<open>0\<close> take the
  \<open>else\<close> branch, every other integer the first branch. The argument \<open>height\<close> is named
  \<open>target_height\<close> here, \<open>height\<close> being an attribute of a stream below.
\<close>

definition format_selector :: "int option \<Rightarrow> string" where
  "format_selector target_height =
     (case target_height of
        None \<Rightarrow> ''bestvideo+bestaudio/best''
      | Some h \<Rightarrow>
          if h \<noteq> 0
          then ''bestvideo[height='' @ str_int h @ '']+bestaudio/best[height=''
                 @ str_int h @ '']/best''
          else ''bestvideo+bestaudio/best'')"

text \<open>Lines 81-87: the options of \<open>download_video\<close> for scratch directory \<open>tmp\<close>.\<close>

definition video_opts :: "string \<Rightarrow> int option \<Rightarrow> ydl_opts" where
  "video_opts tmp target_height =
     \<lparr> opt_format = format_selector target_height,
       outtmpl = path_join tmp ''output.%(ext)s'',
       merge_output_format = Some ''mp4'',
       quiet = True,
       postprocessor_args = Some [],
       postprocessors = None \<rparr>"

text \<open>
  Lines 106-117: the options of \<open>download_audio\<close>. \<open>target_quality_kbps or 192\<close>
  is \<open>192\<close> when the argument is \<open>None\<close> or \<open>0\<close>.
\<close>

definition quality_or_default :: "int option \<Rightarrow> int" where
  "quality_or_default target_quality_kbps =
     (case target_quality_kbps of None \<Rightarrow> 192 | Some q \<Rightarrow> if q \<noteq> 0 then q else 192)"

definition audio_opts :: "string \<Rightarrow> string \<Rightarrow> int option \<Rightarrow> ydl_opts" where
  "audio_opts tmp target_codec target_quality_kbps =
     \<lparr> opt_format = ''bestaudio/best'',
       outtmpl = path_join tmp ''output.%(ext)s'',
       merge_output_format = None,
       quiet = True,
       postprocessor_args = None,
       postprocessors = Some
         [\<lparr> pp_key = ''FFmpegExtractAudio'',
            preferredcodec = target_codec,
            preferredquality = str_int (quality_or_default target_quality_kbps) \<rparr>] \<rparr>"

section \<open>Stream descriptors and the two enumeration functions\<close>

text \<open>
  One entry of \<open>info["formats"]\<close>. Every attribute is read with \<open>f.get(...)\<close>, which
  gives \<open>None\<close> for a missing key, so a field is \<open>None\<close> when the key is missing
  or holds \<open>None\<close>. The height is a pixel count, a Python integer, on which
  \<open>int(...)\<close> is the identity. The average bitrate is a Python number, an integer or a
  finite float, modelled by its exact rational value.
\<close>

record stream =
  vcodec :: "string option"
  acodec :: "string option"
  height :: "int option"
  abr :: "rat option"
  ext :: "string option"

record info =
  title :: "string option"
  formats :: "stream list option"

text \<open>\<open>info.get("formats", [])\<close>.\<close>

definition info_formats :: "info \<Rightarrow> stream list" where
  "info_formats i = (case formats i of None \<Rightarrow> [] | Some fs \<Rightarrow> fs)"

text \<open>
  One round of the loop of \<open>list_available_resolutions\<close> (lines 21-23). An absent
  \<open>vcodec\<close> is \<open>None\<close>, which differs from the string \<open>"none"\<close>; a height that
  is \<open>None\<close> or \<open>0\<close> is falsy.
\<close>

definition add_height :: "stream \<Rightarrow> int set \<Rightarrow> int set" where
  "add_height f heights =
     (case height f of
        None \<Rightarrow> heights
      | Some h \<Rightarrow> if vcodec f \<noteq> Some ''none'' \<and> h \<noteq> 0 then insert h heights else heights)"

text \<open>
  Lines 18-24. \<open>sorted(heights, reverse=True)\<close> on a set of integers is the descending
  enumeration of the set, whatever order the set is iterated in.
\<close>

definition list_available_resolutions :: "info \<Rightarrow> int list" where
  "list_available_resolutions i = rev (sorted_list_of_set (fold add_height (info_formats i) {}))"

text \<open>\<open>int(x)\<close> on a Python number: truncation towards zero.\<close>

definition py_int :: "rat \<Rightarrow> int" where
  "py_int q = (if q < 0 then \<lceil>q\<rceil> else \<lfloor>q\<rfloor>)"

text \<open>Line 31: the test selecting audio-only streams.\<close>

definition is_audio_only :: "stream \<Rightarrow> bool" where
  "is_audio_only f = (vcodec f = Some ''none'' \<and> acodec f \<noteq> None \<and> acodec f \<noteq> Some ''none'')"

text \<open>
  Lines 32-34: the pair appended for a selected stream. \<open>f.get("ext") or "m4a"\<close> replaces
  \<open>None\<close> and the empty string; \<open>int(abr) if abr else None\<close> gives \<open>None\<close> for
  \<open>None\<close> and for zero.
\<close>

definition audio_pair :: "stream \<Rightarrow> string \<times> int option" where
  "audio_pair f =
     (case ext f of None \<Rightarrow> ''m4a'' | Some e \<Rightarrow> if e \<noteq> [] then e else ''m4a'',
      case abr f of None \<Rightarrow> None | Some q \<Rightarrow> if q \<noteq> 0 then Some (py_int q) else None)"

definition append_audio :: "stream \<Rightarrow> (string \<times> int option) list \<Rightarrow> (string \<times> int option) list" where
  "append_audio f audio = (if is_audio_only f then audio @ [audio_pair f] else audio)"

text \<open>Line 37: the sort key \<open>x[1] or 0\<close>.\<close>

definition abr_key :: "string \<times> int option \<Rightarrow> int" where
  "abr_key x = (case snd x of None \<Rightarrow> 0 | Some b \<Rightarrow> if b \<noteq> 0 then b else 0)"

text \<open>
  \<open>xs.sort(key=k, reverse=True)\<close>: CPython reverses the list, sorts it stably in
  ascending key order and reverses it again, so equal keys keep their order.
\<close>

definition sort_reverse :: "('a \<Rightarrow> int) \<Rightarrow> 'a list \<Rightarrow> 'a list" where
  "sort_reverse k xs = rev (sort_key k (rev xs))"

text \<open>
  Lines 27-38. The order in which \<open>list({...})\<close> enumerates a set depends on string
  hashes, which Python randomises; it is the parameter \<open>set_list\<close>, which maps the list
  of collected pairs to the enumeration of the set of its elements.
\<close>

definition set_enumeration :: "('a list \<Rightarrow> 'a list) \<Rightarrow> bool" where
  "set_enumeration set_list = (\<forall>xs. distinct (set_list xs) \<and> set (set_list xs) = set xs)"

definition list_audio_formats ::
  "((string \<times> int option) list \<Rightarrow> (string \<times> int option) list) \<Rightarrow> info \<Rightarrow> (string \<times> int option) list" where
  "list_audio_formats set_list i =
     (let audio = fold append_audio (info_formats i) [];
          audio = set_list audio
      in sort_reverse abr_key audio)"

section \<open>Reading the output file\<close>

text \<open>\<open>str.lower\<close>, \<open>str.startswith\<close> and \<open>str.split(sep)\<close> on ASCII strings.\<close>

definition lower_char :: "char \<Rightarrow> char" where
  "lower_char c =
     (let n = (of_char c :: nat) in if 65 \<le> n \<and> n \<le> 90 then char_of (n + 32) else c)"

definition lower :: "string \<Rightarrow> string" where
  "lower s = map lower_char s"

definition startswith :: "string \<Rightarrow> string \<Rightarrow> bool" where
  "startswith s p = (take (length p) s = p)"

fun split :: "char \<Rightarrow> string \<Rightarrow> string list" where
  "split sep [] = [[]]"
| "split sep (c # cs) =
     (if c = sep then [] # split sep cs
      else case split sep cs of [] \<Rightarrow> [[c]] | w # ws \<Rightarrow> (c # w) # ws)"

text \<open>Lines 41-52.\<close>

definition mime_mapping :: "(string \<times> string) list" where
  "mime_mapping =
     [(''mp4'', ''video/mp4''),
      (''webm'', ''video/webm''),
      (''mkv'', ''video/x-matroska''),
      (''mp3'', ''audio/mpeg''),
      (''m4a'', ''audio/mp4''),
      (''aac'', ''audio/aac''),
      (''opus'', ''audio/ogg''),
      (''wav'', ''audio/wav'')]"

definition detect_mime_from_ext :: "string \<Rightarrow> string" where
  "detect_mime_from_ext e =
     (case map_of mime_mapping (lower e) of None \<Rightarrow> ''application/octet-stream'' | Some m \<Rightarrow> m)"

text \<open>
  The file system as far as the program uses it: a directory path is mapped to its
  regular files, name and content, in the order \<open>os.listdir\<close> returns them.
\<close>

type_synonym bytes = "8 word list"
type_synonym directory = "(string \<times> bytes) list"
type_synonym filesystem = "string \<rightharpoonup> directory"

datatype error = FileNotFoundError string | DownloadError string

type_synonym download_result = "bytes \<times> string \<times> string"

text \<open>Lines 57-64: the loop over the listing, and the \<open>raise\<close> after it.\<close>

fun scan_listing :: "directory \<Rightarrow> string \<Rightarrow> error + download_result" where
  "scan_listing [] prefix = Inl (FileNotFoundError ''Downloaded file not found.'')"
| "scan_listing ((name, data) # rest) prefix =
     (if startswith name prefix
      then Inr (data, name, detect_mime_from_ext (last (split CHR ''.'' name)))
      else scan_listing rest prefix)"

text \<open>
  Lines 55-64. \<open>os.listdir\<close> on a path that does not exist raises the operating
  system's own \<open>FileNotFoundError\<close>.
\<close>

definition read_first_file_by_prefix :: "filesystem \<Rightarrow> string \<Rightarrow> string \<Rightarrow> error + download_result" where
  "read_first_file_by_prefix fs folder prefix =
     (case fs folder of
        None \<Rightarrow> Inl (FileNotFoundError ''No such file or directory'')
      | Some listing \<Rightarrow> scan_listing listing prefix)"

section \<open>The two download functions\<close>

text \<open>
  The extractor is external: \<open>YoutubeDL(opts).download(urls)\<close> is a parameter that
  takes the options, the URLs and the file system, and gives back the exception it
  raised, if any, and the file system it left.
\<close>

type_synonym extractor = "ydl_opts \<Rightarrow> string list \<Rightarrow> filesystem \<Rightarrow> error option \<times> filesystem"

text \<open>
  \<open>with tempfile.TemporaryDirectory() as tmp: body\<close>. Entering creates a new empty
  directory, whose path the library chooses (the parameter \<open>mkdtemp\<close>); leaving the
  block, by return or by exception, removes the directory and all it contains.
\<close>

definition with_TemporaryDirectory ::
  "(filesystem \<Rightarrow> string) \<Rightarrow> (string \<Rightarrow> filesystem \<Rightarrow> 'a \<times> filesystem) \<Rightarrow> filesystem \<Rightarrow> 'a \<times> filesystem" where
  "with_TemporaryDirectory mkdtemp body fs =
     (let tmp = mkdtemp fs;
          (r, fs') = body tmp (fs(tmp \<mapsto> []))
      in (r, fs'(tmp := None)))"

text \<open>Lines 68-92.\<close>

definition download_video ::
  "extractor \<Rightarrow> (filesystem \<Rightarrow> string) \<Rightarrow> string \<Rightarrow> int option \<Rightarrow> filesystem
     \<Rightarrow> (error + download_result) \<times> filesystem" where
  "download_video ydl mkdtemp url target_height =
     with_TemporaryDirectory mkdtemp (\<lambda>tmp fs.
       case ydl (video_opts tmp target_height) [url] fs of
         (Some e, fs') \<Rightarrow> (Inl e, fs')
       | (None, fs') \<Rightarrow> (read_first_file_by_prefix fs' tmp ''output.'', fs'))"

text \<open>Lines 95-122.\<close>

definition download_audio ::
  "extractor \<Rightarrow> (filesystem \<Rightarrow> string) \<Rightarrow> string \<Rightarrow> string \<Rightarrow> int option \<Rightarrow> filesystem
     \<Rightarrow> (error + download_result) \<times> filesystem" where
  "download_audio ydl mkdtemp url target_codec target_quality_kbps =
     with_TemporaryDirectory mkdtemp (\<lambda>tmp fs.
       case ydl (audio_opts tmp target_codec target_quality_kbps) [url] fs of
         (Some e, fs') \<Rightarrow> (Inl e, fs')
       | (None, fs') \<Rightarrow> (read_first_file_by_prefix fs' tmp ''output.'', fs'))"

section \<open>Specification sets and example inputs\<close>

text \<open>
  The heights that the loop of \<open>list_available_resolutions\<close> collects from a list of
  streams, written as a set comprehension; \<open>fold_add_height\<close> below shows that the loop
  computes it.
\<close>

definition video_heights :: "stream list \<Rightarrow> int set" where
  "video_heights fs = {h. \<exists>f\<in>set fs. vcodec f \<noteq> Some ''none'' \<and> height f = Some h \<and> h \<noteq> 0}"

text \<open>The stream list of the specification's resolution example.\<close>

definition example_video_info :: info where
  "example_video_info =
     \<lparr> title = Some ''clip'',
       formats = Some
         [\<lparr> vcodec = Some ''vp9'', acodec = None, height = Some 1080, abr = None, ext = None \<rparr>,
          \<lparr> vcodec = Some ''vp9'', acodec = None, height = Some 1080, abr = None, ext = None \<rparr>,
          \<lparr> vcodec = Some ''none'', acodec = None, height = Some 720, abr = None, ext = None \<rparr>] \<rparr>"

text \<open>
  An audio example: a stream without extension and bitrate, the same opus stream twice
  with a fractional bitrate, a stream whose audio codec is \<open>"none"\<close>, and a video stream.
\<close>

definition example_audio_info :: info where
  "example_audio_info =
     \<lparr> title = Some ''clip'',
       formats = Some
         [\<lparr> vcodec = Some ''none'', acodec = Some ''mp4a'', height = None, abr = None, ext = None \<rparr>,
          \<lparr> vcodec = Some ''none'', acodec = Some ''opus'', height = None, abr = Some (259 / 2), ext = Some ''webm'' \<rparr>,
          \<lparr> vcodec = Some ''none'', acodec = Some ''opus'', height = None, abr = Some (259 / 2), ext = Some ''webm'' \<rparr>,
          \<lparr> vcodec = Some ''none'', acodec = Some ''none'', height = None, abr = None, ext = None \<rparr>,
          \<lparr> vcodec = Some ''h264'', acodec = None, height = Some 720, abr = None, ext = Some ''mp4'' \<rparr>] \<rparr>"

definition example_opus_stream :: stream where
  "example_opus_stream =
     \<lparr> vcodec = Some ''none'', acodec = Some ''opus'', height = None, abr = Some (259 / 2), ext = Some ''webm'' \<rparr>"

definition example_m4a_stream :: stream where
  "example_m4a_stream =
     \<lparr> vcodec = Some ''none'', acodec = Some ''mp4a'', height = None, abr = None, ext = None \<rparr>"

text \<open>
  Two more audio examples: known bitrates given in ascending order around a stream of
  unknown bitrate, and a negative bitrate beside an unknown one.
\<close>

definition example_bitrate_info :: info where
  "example_bitrate_info =
     \<lparr> title = Some ''clip'',
       formats = Some
         [\<lparr> vcodec = Some ''none'', acodec = Some ''opus'', height = None, abr = Some 64, ext = Some ''webm'' \<rparr>,
          \<lparr> vcodec = Some ''none'', acodec = Some ''mp4a'', height = None, abr = None, ext = None \<rparr>,
          \<lparr> vcodec = Some ''none'', acodec = Some ''mp4a'', height = None, abr = Some 320, ext = Some ''m4a'' \<rparr>] \<rparr>"

definition example_negative_info :: info where
  "example_negative_info =
     \<lparr> title = Some ''clip'',
       formats = Some
         [\<lparr> vcodec = Some ''none'', acodec = Some ''opus'', height = None, abr = Some (- 129), ext = Some ''webm'' \<rparr>,
          \<lparr> vcodec = Some ''none'', acodec = Some ''mp4a'', height = None, abr = None, ext = None \<rparr>] \<rparr>"

text \<open>A scratch directory holding a stray file and the extractor's output.\<close>

definition example_fs :: filesystem where
  "example_fs = Map.empty(''/tmp/tmpab12'' \<mapsto> [(''notes.txt'', [104, 105]), (''output.mkv'', [26, 69, 223, 163])])"

text \<open>
  Three extractors for the three ways a download can end: one raises, one returns
  without writing anything, one writes \<open>output.mp4\<close> into the scratch directory
  \<open>/tmp/tmpab12\<close>.
\<close>

definition failing_extractor :: extractor where
  "failing_extractor opts urls fs = (Some (DownloadError ''Unsupported URL''), fs)"

definition silent_extractor :: extractor where
  "silent_extractor opts urls fs = (None, fs)"

definition writing_extractor :: extractor where
  "writing_extractor opts urls fs = (None, fs(''/tmp/tmpab12'' \<mapsto> [(''output.mp4'', [0, 1])]))"

definition example_mkdtemp :: "filesystem \<Rightarrow> string" where
  "example_mkdtemp fs = ''/tmp/tmpab12''"


section \<open>Decimal numerals used below\<close>

lemma str_int_1080: "str_int 1080 = ''1080''"
  by code_simp

lemma str_int_192: "str_int 192 = ''192''"
  by code_simp

lemma str_int_0: "str_int 0 = ''0''"
  by code_simp

section \<open>The options built by the download functions\<close>

text \<open>
  \<open>download_video\<close> consults the extractor once, with \<open>video_opts\<close> for the scratch
  directory: two extractors that agree on that call give the same download.
\<close>

lemma download_video_extractor_call:
  assumes "ydl (video_opts (mkdtemp fs) target_height) [url] (fs(mkdtemp fs \<mapsto> []))
             = ydl' (video_opts (mkdtemp fs) target_height) [url] (fs(mkdtemp fs \<mapsto> []))"
  shows "download_video ydl mkdtemp url target_height fs = download_video ydl' mkdtemp url target_height fs"
  using assms by (simp add: download_video_def with_TemporaryDirectory_def Let_def)

lemma download_audio_extractor_call:
  assumes "ydl (audio_opts (mkdtemp fs) target_codec q) [url] (fs(mkdtemp fs \<mapsto> []))
             = ydl' (audio_opts (mkdtemp fs) target_codec q) [url] (fs(mkdtemp fs \<mapsto> []))"
  shows "download_audio ydl mkdtemp url target_codec q fs = download_audio ydl' mkdtemp url target_codec q fs"
  using assms by (simp add: download_audio_def with_TemporaryDirectory_def Let_def)

text \<open>
  Claim C1, as amended: for every target height \<open>h\<close> other than \<open>0\<close>, the format
  expression in the options that \<open>download_video\<close> hands to the extractor is
  \<open>bestvideo[height=h]+bestaudio/best[height=h]/best\<close>, with \<open>h\<close> in decimal; with no
  target height it is \<open>bestvideo+bestaudio/best\<close>.
\<close>

theorem download_video_format_expression:
  "(h \<noteq> 0 \<longrightarrow>
      opt_format (video_opts tmp (Some h)) =
        ''bestvideo[height='' @ str_int h @ '']+bestaudio/best[height='' @ str_int h @ '']/best'')
   \<and> opt_format (video_opts tmp None) = ''bestvideo+bestaudio/best''"
  by (simp add: video_opts_def format_selector_def)

text \<open>The statement at height 1080.\<close>

theorem download_video_format_expression_witness:
  "(1080 :: int) \<noteq> 0
   \<and> opt_format (video_opts ''/tmp/tmpab12'' (Some 1080)) =
       ''bestvideo[height=1080]+bestaudio/best[height=1080]/best''
   \<and> opt_format (video_opts ''/tmp/tmpab12'' None) = ''bestvideo+bestaudio/best''"
  using download_video_format_expression [of 1080 "''/tmp/tmpab12''"] str_int_1080
  by simp

text \<open>
  At the target height \<open>0\<close> the expression is not the exact-height one: \<open>if height:\<close>
  sends \<open>0\<close> to the \<open>else\<close> branch.
\<close>

theorem download_video_height_zero_counterexample:
  "opt_format (video_opts ''/tmp/tmpab12'' (Some 0)) \<noteq>
     ''bestvideo[height='' @ str_int 0 @ '']+bestaudio/best[height='' @ str_int 0 @ '']/best''"
  by (simp add: video_opts_def format_selector_def)

text \<open>
  Claim C9: for the target height \<open>0\<close>, \<open>download_video\<close> builds the expression
  \<open>bestvideo+bestaudio/best\<close>; its options, and so the whole download, are those of a
  call with no target height, and the expression is not the exact-height one for \<open>0\<close>.
\<close>

theorem download_video_height_zero:
  "opt_format (video_opts tmp (Some 0)) = ''bestvideo+bestaudio/best''
   \<and> video_opts tmp (Some 0) = video_opts tmp None
   \<and> download_video ydl mkdtemp url (Some 0) fs = download_video ydl mkdtemp url None fs
   \<and> opt_format (video_opts tmp (Some 0)) \<noteq> ''bestvideo[height=0]+bestaudio/best[height=0]/best''"
  by (simp add: download_video_def video_opts_def format_selector_def)

text \<open>
  Claim C6, as amended: the options that \<open>download_audio\<close> hands to the extractor have
  the format expression \<open>bestaudio/best\<close> and exactly one post-processor, the audio
  extraction \<open>FFmpegExtractAudio\<close>, for the requested codec; its quality is the requested
  bitrate in decimal when a bitrate other than \<open>0\<close> is given, and \<open>192\<close> when the
  bitrate is \<open>None\<close> or \<open>0\<close>.
\<close>

theorem download_audio_options:
  "opt_format (audio_opts tmp target_codec q) = ''bestaudio/best''
   \<and> (\<exists>pq. postprocessors (audio_opts tmp target_codec q) =
              Some [\<lparr> pp_key = ''FFmpegExtractAudio'', preferredcodec = target_codec,
                      preferredquality = pq \<rparr>]
         \<and> (q = None \<or> q = Some 0 \<longrightarrow> pq = ''192'')
         \<and> (\<forall>b. q = Some b \<and> b \<noteq> 0 \<longrightarrow> pq = str_int b))"
  using str_int_192 by (auto simp add: audio_opts_def quality_or_default_def)

text \<open>The statement for mp3 at 192 kbps, and for mp3 with no bitrate.\<close>

theorem download_audio_options_witness:
  "opt_format (audio_opts ''/tmp/tmpab12'' ''mp3'' (Some 192)) = ''bestaudio/best''
   \<and> postprocessors (audio_opts ''/tmp/tmpab12'' ''mp3'' (Some 192)) =
        Some [\<lparr> pp_key = ''FFmpegExtractAudio'', preferredcodec = ''mp3'', preferredquality = ''192'' \<rparr>]
   \<and> postprocessors (audio_opts ''/tmp/tmpab12'' ''mp3'' None) =
        Some [\<lparr> pp_key = ''FFmpegExtractAudio'', preferredcodec = ''mp3'', preferredquality = ''192'' \<rparr>]"
  using download_audio_options [of "''/tmp/tmpab12''" "''mp3''" "Some 192"]
        download_audio_options [of "''/tmp/tmpab12''" "''mp3''" "None"] str_int_192
  by auto

text \<open>
  A requested bitrate of \<open>0\<close> gives the quality \<open>192\<close>, which is not the decimal
  numeral of \<open>0\<close>.
\<close>

theorem download_audio_quality_zero_counterexample:
  "postprocessors (audio_opts ''/tmp/tmpab12'' ''mp3'' (Some 0)) =
     Some [\<lparr> pp_key = ''FFmpegExtractAudio'', preferredcodec = ''mp3'', preferredquality = ''192'' \<rparr>]
   \<and> str_int 0 \<noteq> ''192''"
  using str_int_192 str_int_0 by (simp add: audio_opts_def quality_or_default_def)

section \<open>Available resolutions\<close>

lemma fold_add_height: "fold add_height fs S = S \<union> video_heights fs"
proof (induction fs arbitrary: S)
  case Nil
  show ?case by (simp add: video_heights_def)
next
  case (Cons f fs)
  have step: "add_height f S \<union> video_heights fs = S \<union> video_heights (f # fs)"
    by (cases "height f") (auto simp: add_height_def video_heights_def)
  show ?case using Cons.IH [of "add_height f S"] step by simp
qed

lemma finite_fold_add_height: "finite S \<Longrightarrow> finite (fold add_height fs S)"
  by (induction fs arbitrary: S) (auto simp: add_height_def split: option.splits)

lemma finite_video_heights: "finite (video_heights fs)"
  using finite_fold_add_height [of "{}" fs] by (simp add: fold_add_height)

lemma set_list_available_resolutions:
  "set (list_available_resolutions i) = video_heights (info_formats i)"
  by (simp add: list_available_resolutions_def fold_add_height finite_video_heights)

lemma descending_list_available_resolutions:
  "sorted_wrt (\<lambda>a b. a > b) (list_available_resolutions i)"
  by (simp add: list_available_resolutions_def sorted_wrt_rev)

lemma example_video_info_resolutions: "list_available_resolutions example_video_info = [1080]"
  by (simp add: example_video_info_def list_available_resolutions_def info_formats_def add_height_def)

text \<open>
  Claim C2: \<open>list_available_resolutions\<close> returns a strictly descending list of integers
  without duplicates, every element of which is the height of a stream of the input whose
  video codec is not \<open>"none"\<close>; on the empty stream list it returns the empty list.
\<close>

theorem list_available_resolutions_descending:
  "sorted_wrt (\<lambda>a b. a > b) (list_available_resolutions i)
   \<and> distinct (list_available_resolutions i)
   \<and> (\<forall>h\<in>set (list_available_resolutions i).
         \<exists>f\<in>set (info_formats i). vcodec f \<noteq> Some ''none'' \<and> height f = Some h)
   \<and> list_available_resolutions \<lparr> title = t, formats = Some [] \<rparr> = []"
proof -
  have "\<forall>h\<in>set (list_available_resolutions i).
         \<exists>f\<in>set (info_formats i). vcodec f \<noteq> Some ''none'' \<and> height f = Some h"
    unfolding set_list_available_resolutions video_heights_def by blast
  moreover have "distinct (list_available_resolutions i)"
    by (simp add: list_available_resolutions_def)
  moreover have "list_available_resolutions \<lparr> title = t, formats = Some [] \<rparr> = []"
    by (simp add: list_available_resolutions_def info_formats_def)
  ultimately show ?thesis
    using descending_list_available_resolutions by blast
qed

text \<open>The statement on the specification's example, whose result is \<open>[1080]\<close>.\<close>

theorem list_available_resolutions_descending_witness:
  "list_available_resolutions example_video_info = [1080]
   \<and> (\<exists>f\<in>set (info_formats example_video_info). vcodec f \<noteq> Some ''none'' \<and> height f = Some 1080)
   \<and> sorted_wrt (\<lambda>a b. a > b) [1080 :: int]"
  using list_available_resolutions_descending [of example_video_info]
  by (simp add: example_video_info_resolutions)

text \<open>
  Claim C3, as amended: \<open>list_available_resolutions\<close> contains a height exactly when
  some stream of the input has that height, the height is not \<open>0\<close>, and the stream's
  video codec attribute is not the string \<open>"none"\<close>; an absent video codec attribute is
  not \<open>"none"\<close>, so such a stream contributes its height.
\<close>

theorem list_available_resolutions_membership:
  "h \<in> set (list_available_resolutions i) \<longleftrightarrow>
     (\<exists>f\<in>set (info_formats i). vcodec f \<noteq> Some ''none'' \<and> height f = Some h \<and> h \<noteq> 0)"
  unfolding set_list_available_resolutions video_heights_def by blast

text \<open>On the example, 1080 is returned and 720, the height of the audio-only stream, is not.\<close>

theorem list_available_resolutions_membership_witness:
  "1080 \<in> set (list_available_resolutions example_video_info)
   \<and> (\<exists>f\<in>set (info_formats example_video_info).
         vcodec f \<noteq> Some ''none'' \<and> height f = Some 1080 \<and> (1080 :: int) \<noteq> 0)
   \<and> 720 \<notin> set (list_available_resolutions example_video_info)"
  using list_available_resolutions_membership [of 1080 example_video_info]
        list_available_resolutions_membership [of 720 example_video_info]
  by (simp add: example_video_info_resolutions)

text \<open>A stream with no video codec attribute and height 720 contributes 720.\<close>

theorem absent_vcodec_counterexample:
  "list_available_resolutions
     \<lparr> title = None,
       formats = Some
         [\<lparr> vcodec = None, acodec = None, height = Some 720, abr = None, ext = None \<rparr>] \<rparr> = [720]"
  by (simp add: list_available_resolutions_def info_formats_def add_height_def)


section \<open>Available audio options\<close>

lemma fold_append_audio:
  "fold append_audio fs acc = acc @ map audio_pair (filter is_audio_only fs)"
  by (induction fs arbitrary: acc) (simp_all add: append_audio_def)

lemma set_sort_reverse: "set (sort_reverse k xs) = set xs"
  by (simp add: sort_reverse_def)

lemma distinct_sort_reverse: "distinct (sort_reverse k xs) = distinct xs"
  by (simp add: sort_reverse_def)

lemma sorted_sort_reverse: "sorted_wrt (\<lambda>a b. k a \<ge> k b) (sort_reverse k xs)"
proof -
  have "sorted (map k (sort_key k (rev xs)))"
    by (rule sorted_sort_key)
  then have "sorted_wrt (\<lambda>a b. k a \<le> k b) (sort_key k (rev xs))"
    by (simp add: sorted_map)
  then show ?thesis
    by (simp add: sort_reverse_def sorted_wrt_rev)
qed

lemma set_list_audio_formats:
  assumes "set_enumeration set_list"
  shows "set (list_audio_formats set_list i) = audio_pair ` {f \<in> set (info_formats i). is_audio_only f}"
  using assms
  by (simp add: list_audio_formats_def Let_def set_sort_reverse set_enumeration_def fold_append_audio)

text \<open>Keeping the first occurrence of each element is one enumeration of the set.\<close>

lemma set_enumeration_remdups: "set_enumeration remdups"
  by (simp add: set_enumeration_def)

lemma example_audio_info_formats:
  "list_audio_formats remdups example_audio_info = [(''webm'', Some 129), (''m4a'', None)]"
  by code_simp

lemma example_opus_stream_pair: "audio_pair example_opus_stream = (''webm'', Some 129)"
  by code_simp

lemma example_opus_stream_in: "example_opus_stream \<in> set (info_formats example_audio_info)"
  by (simp add: example_opus_stream_def example_audio_info_def info_formats_def)

lemma example_opus_stream_audio: "is_audio_only example_opus_stream"
  by (simp add: example_opus_stream_def is_audio_only_def)

lemma example_m4a_stream_in: "example_m4a_stream \<in> set (info_formats example_audio_info)"
  by (simp add: example_m4a_stream_def example_audio_info_def info_formats_def)

lemma example_m4a_stream_audio: "is_audio_only example_m4a_stream"
  by (simp add: example_m4a_stream_def is_audio_only_def)

lemma example_m4a_stream_ext: "ext example_m4a_stream = None \<or> ext example_m4a_stream = Some []"
  by (simp add: example_m4a_stream_def)

text \<open>
  The sort key \<open>x[1] or 0\<close> is the bitrate itself, with \<open>0\<close> for an unknown one.
\<close>

lemma abr_key_snd: "abr_key x = (case snd x of None \<Rightarrow> 0 | Some b \<Rightarrow> b)"
  by (cases "snd x") (simp_all add: abr_key_def)

lemma sorted_snd_list_audio_formats:
  "sorted_wrt (\<lambda>a b. (case snd a of None \<Rightarrow> 0 | Some x \<Rightarrow> x) \<ge> (case snd b of None \<Rightarrow> (0::int) | Some y \<Rightarrow> y))
     (list_audio_formats set_list i)"
  using sorted_sort_reverse [of abr_key "set_list (fold append_audio (info_formats i) [])"]
  by (simp add: list_audio_formats_def Let_def abr_key_snd)

lemma sorted_snd_unknown_after_positive:
  assumes s: "sorted_wrt (\<lambda>a b. (case snd a of None \<Rightarrow> 0 | Some x \<Rightarrow> x) \<ge> (case snd b of None \<Rightarrow> (0::int) | Some y \<Rightarrow> y)) r"
    and i: "i < length r" and j: "j < length r"
    and u: "snd (r ! i) = None" and k: "snd (r ! j) = Some b" and p: "0 < b"
  shows "j < i"
proof (rule ccontr)
  assume "\<not> j < i"
  then consider "i = j" | "i < j" by linarith
  then show False
  proof cases
    case 1
    with u k show False by simp
  next
    case 2
    from sorted_wrt_nth_less [OF s 2 j] u k p show False by simp
  qed
qed

lemma sorted_snd_unknown_before_negative:
  assumes s: "sorted_wrt (\<lambda>a b. (case snd a of None \<Rightarrow> 0 | Some x \<Rightarrow> x) \<ge> (case snd b of None \<Rightarrow> (0::int) | Some y \<Rightarrow> y)) r"
    and i: "i < length r" and j: "j < length r"
    and u: "snd (r ! i) = None" and k: "snd (r ! j) = Some b" and p: "b < 0"
  shows "i < j"
proof (rule ccontr)
  assume "\<not> i < j"
  then consider "i = j" | "j < i" by linarith
  then show False
  proof cases
    case 1
    with u k show False by simp
  next
    case 2
    from sorted_wrt_nth_less [OF s 2 i] u k p show False by simp
  qed
qed

lemma example_bitrate_info_formats:
  "list_audio_formats remdups example_bitrate_info =
     [(''m4a'', Some 320), (''webm'', Some 64), (''m4a'', None)]"
  by code_simp

text \<open>
  Claim C4, as amended: whatever order the set of pairs is enumerated in,
  \<open>list_audio_formats\<close> returns a list without two equal pairs, every entry of which
  is the pair of a stream of the input whose video codec is \<open>"none"\<close> and whose audio
  codec is neither absent nor \<open>"none"\<close>; the list is sorted by bitrate descending, an
  unknown bitrate counting as \<open>0\<close>, so that an entry of unknown bitrate comes after
  every entry of positive bitrate and before every entry of negative bitrate; on the empty
  stream list it returns the empty list.
\<close>

theorem list_audio_formats_sorted_distinct:
  assumes "set_enumeration set_list"
  shows "distinct (list_audio_formats set_list i)
    \<and> (\<forall>p\<in>set (list_audio_formats set_list i).
          \<exists>f\<in>set (info_formats i).
            vcodec f = Some ''none'' \<and> acodec f \<noteq> None \<and> acodec f \<noteq> Some ''none''
            \<and> p = audio_pair f)
    \<and> sorted_wrt (\<lambda>a b. (case snd a of None \<Rightarrow> 0 | Some x \<Rightarrow> x) \<ge> (case snd b of None \<Rightarrow> 0 | Some y \<Rightarrow> y))
         (list_audio_formats set_list i)
    \<and> (\<forall>m n b. m < length (list_audio_formats set_list i) \<and> n < length (list_audio_formats set_list i)
          \<and> snd (list_audio_formats set_list i ! m) = None
          \<and> snd (list_audio_formats set_list i ! n) = Some b
          \<longrightarrow> (0 < b \<longrightarrow> n < m) \<and> (b < 0 \<longrightarrow> m < n))
    \<and> list_audio_formats set_list \<lparr> title = t, formats = Some [] \<rparr> = []"
proof -
  have d: "distinct (list_audio_formats set_list i)"
    using assms by (simp add: list_audio_formats_def Let_def distinct_sort_reverse set_enumeration_def)
  have m: "\<forall>p\<in>set (list_audio_formats set_list i).
          \<exists>f\<in>set (info_formats i).
            vcodec f = Some ''none'' \<and> acodec f \<noteq> None \<and> acodec f \<noteq> Some ''none''
            \<and> p = audio_pair f"
    unfolding set_list_audio_formats [OF assms] by (auto simp: is_audio_only_def)
  note s = sorted_snd_list_audio_formats [of set_list i]
  have u: "\<forall>m n b. m < length (list_audio_formats set_list i) \<and> n < length (list_audio_formats set_list i)
          \<and> snd (list_audio_formats set_list i ! m) = None
          \<and> snd (list_audio_formats set_list i ! n) = Some b
          \<longrightarrow> (0 < b \<longrightarrow> n < m) \<and> (b < 0 \<longrightarrow> m < n)"
    using sorted_snd_unknown_after_positive [OF s] sorted_snd_unknown_before_negative [OF s]
    by blast
  have "set (list_audio_formats set_list \<lparr> title = t, formats = Some [] \<rparr>) = {}"
    unfolding set_list_audio_formats [OF assms] by (simp add: info_formats_def)
  then have n: "list_audio_formats set_list \<lparr> title = t, formats = Some [] \<rparr> = []"
    by simp
  from d m s u n show ?thesis by blast
qed

text \<open>
  The statement on the example with bitrates 64, unknown and 320, enumerated by first
  occurrence: 320 comes first, the unknown bitrate last.
\<close>

theorem list_audio_formats_sorted_distinct_witness:
  "set_enumeration (remdups :: (string \<times> int option) list \<Rightarrow> (string \<times> int option) list)
   \<and> list_audio_formats remdups example_bitrate_info =
        [(''m4a'', Some 320), (''webm'', Some 64), (''m4a'', None)]
   \<and> distinct [(''m4a'', Some (320 :: int)), (''webm'', Some 64), (''m4a'', None)]
   \<and> sorted_wrt (\<lambda>a b. (case snd a of None \<Rightarrow> 0 | Some x \<Rightarrow> x) \<ge> (case snd b of None \<Rightarrow> 0 | Some y \<Rightarrow> y))
        [(''m4a'', Some (320 :: int)), (''webm'', Some 64), (''m4a'', None)]"
  using list_audio_formats_sorted_distinct [OF set_enumeration_remdups, of example_bitrate_info]
        set_enumeration_remdups
  by (simp add: example_bitrate_info_formats)

text \<open>
  With a bitrate of \<open>-129\<close> in the input, the entry of unknown bitrate is not last,
  in either order of enumeration of the two pairs.
\<close>

theorem negative_bitrate_counterexample:
  "list_audio_formats remdups example_negative_info = [(''m4a'', None), (''webm'', Some (- 129))]
   \<and> list_audio_formats (\<lambda>xs. rev (remdups xs)) example_negative_info =
       [(''m4a'', None), (''webm'', Some (- 129))]"
  by (simp add: example_negative_info_def list_audio_formats_def info_formats_def append_audio_def
      is_audio_only_def audio_pair_def sort_reverse_def py_int_def abr_key_def)

text \<open>
  Claim C5, as amended: the pair of every audio-only stream of the input is in the result
  of \<open>list_audio_formats\<close>; when the stream's average bitrate is present and not zero,
  the pair carries \<open>int\<close> of it; the pair's bitrate is \<open>None\<close> exactly when the
  stream's average bitrate is absent or zero.
\<close>

theorem list_audio_formats_bitrate:
  assumes "set_enumeration set_list" and "f \<in> set (info_formats i)" and "is_audio_only f"
  shows "audio_pair f \<in> set (list_audio_formats set_list i)
    \<and> (\<forall>q. abr f = Some q \<and> q \<noteq> 0 \<longrightarrow> snd (audio_pair f) = Some (py_int q))
    \<and> (snd (audio_pair f) = None \<longleftrightarrow> abr f = None \<or> abr f = Some 0)"
proof -
  have "audio_pair f \<in> set (list_audio_formats set_list i)"
    unfolding set_list_audio_formats [OF assms(1)] using assms(2,3) by blast
  moreover have "\<forall>q. abr f = Some q \<and> q \<noteq> 0 \<longrightarrow> snd (audio_pair f) = Some (py_int q)"
    by (simp add: audio_pair_def)
  moreover have "snd (audio_pair f) = None \<longleftrightarrow> abr f = None \<or> abr f = Some 0"
    by (cases "abr f") (simp_all add: audio_pair_def)
  ultimately show ?thesis by blast
qed

text \<open>The statement for the opus stream of the example, whose bitrate 129.5 becomes 129.\<close>

theorem list_audio_formats_bitrate_witness:
  "set_enumeration (remdups :: (string \<times> int option) list \<Rightarrow> (string \<times> int option) list)
   \<and> example_opus_stream \<in> set (info_formats example_audio_info)
   \<and> is_audio_only example_opus_stream
   \<and> abr example_opus_stream = Some (259 / 2)
   \<and> (''webm'', Some 129) \<in> set (list_audio_formats remdups example_audio_info)"
  using list_audio_formats_bitrate [OF set_enumeration_remdups example_opus_stream_in example_opus_stream_audio]
        set_enumeration_remdups example_opus_stream_in example_opus_stream_audio
  by (simp add: example_opus_stream_pair) (simp add: example_opus_stream_def)

text \<open>An audio-only stream whose average bitrate is present and zero gets the bitrate \<open>None\<close>.\<close>

theorem zero_bitrate_counterexample:
  "list_audio_formats remdups
     \<lparr> title = None,
       formats = Some
         [\<lparr> vcodec = Some ''none'', acodec = Some ''opus'', height = None, abr = Some 0,
            ext = Some ''webm'' \<rparr>] \<rparr> = [(''webm'', None)]"
  by (simp add: list_audio_formats_def info_formats_def append_audio_def is_audio_only_def
      audio_pair_def sort_reverse_def)

text \<open>
  Claim C10: for every audio-only stream of the input whose extension attribute is absent
  or empty, the result of \<open>list_audio_formats\<close> contains that stream's pair, and the
  extension of the pair is \<open>m4a\<close>.
\<close>

theorem list_audio_formats_default_ext:
  assumes "set_enumeration set_list" and "f \<in> set (info_formats i)" and "is_audio_only f"
    and "ext f = None \<or> ext f = Some []"
  shows "audio_pair f \<in> set (list_audio_formats set_list i) \<and> fst (audio_pair f) = ''m4a''"
proof -
  have "audio_pair f \<in> set (list_audio_formats set_list i)"
    unfolding set_list_audio_formats [OF assms(1)] using assms(2,3) by blast
  moreover have "fst (audio_pair f) = ''m4a''"
    using assms(4) by (auto simp: audio_pair_def)
  ultimately show ?thesis by blast
qed

text \<open>The statement for the stream of the example that has no extension.\<close>

theorem list_audio_formats_default_ext_witness:
  "set_enumeration (remdups :: (string \<times> int option) list \<Rightarrow> (string \<times> int option) list)
   \<and> example_m4a_stream \<in> set (info_formats example_audio_info)
   \<and> is_audio_only example_m4a_stream
   \<and> ext example_m4a_stream = None
   \<and> (''m4a'', None) \<in> set (list_audio_formats remdups example_audio_info)"
  using list_audio_formats_default_ext [OF set_enumeration_remdups example_m4a_stream_in
          example_m4a_stream_audio example_m4a_stream_ext]
        set_enumeration_remdups example_m4a_stream_in example_m4a_stream_audio
  by (simp add: example_audio_info_formats) (simp add: example_m4a_stream_def)

section \<open>The output scan\<close>

lemma scan_listing_raises:
  "(\<exists>e. scan_listing listing prefix = Inl e) \<longleftrightarrow> (\<forall>(name, data)\<in>set listing. \<not> startswith name prefix)"
  by (induction listing prefix rule: scan_listing.induct) auto

lemma scan_listing_error:
  "scan_listing listing prefix = Inl e \<Longrightarrow> e = FileNotFoundError ''Downloaded file not found.''"
  by (induction listing prefix rule: scan_listing.induct) (auto split: if_splits)

lemma scan_listing_first:
  "find (\<lambda>(name, data). startswith name prefix) listing = Some (name, data) \<Longrightarrow>
   scan_listing listing prefix = Inr (data, name, detect_mime_from_ext (last (split CHR ''.'' name)))"
  by (induction listing prefix rule: scan_listing.induct) (auto split: if_splits)

lemma example_fs_listing:
  "example_fs ''/tmp/tmpab12'' = Some [(''notes.txt'', [104, 105]), (''output.mkv'', [26, 69, 223, 163])]"
  by (simp add: example_fs_def)

lemma example_fs_find:
  "find (\<lambda>(name, data). startswith name ''output.'')
        [(''notes.txt'', [104, 105 :: 8 word]), (''output.mkv'', [26, 69, 223, 163])]
       = Some (''output.mkv'', [26, 69, 223, 163])"
  by (simp add: startswith_def)

lemma example_mime: "detect_mime_from_ext (last (split CHR ''.'' ''output.mkv'')) = ''video/x-matroska''"
  by code_simp

text \<open>
  Claim C7, as amended: for every existing directory and every stem prefix,
  \<open>read_first_file_by_prefix\<close> raises exactly when no file of the directory has a name
  starting with the given prefix, and what it raises is the \<open>FileNotFoundError\<close> of
  line 64; when a file matches, it returns the bytes and the name of the first matching
  file of the listing and the MIME type of the part of the name after its last dot; on an
  empty directory it raises.
\<close>

theorem read_first_file_by_prefix_not_found:
  assumes "fs folder = Some listing"
  shows "((\<exists>e. read_first_file_by_prefix fs folder prefix = Inl e)
            \<longleftrightarrow> (\<forall>(name, data)\<in>set listing. \<not> startswith name prefix))
    \<and> (\<forall>e. read_first_file_by_prefix fs folder prefix = Inl e
            \<longrightarrow> e = FileNotFoundError ''Downloaded file not found.'')
    \<and> (\<forall>name data. find (\<lambda>(name, data). startswith name prefix) listing = Some (name, data)
            \<longrightarrow> read_first_file_by_prefix fs folder prefix =
                  Inr (data, name, detect_mime_from_ext (last (split CHR ''.'' name))))
    \<and> read_first_file_by_prefix (fs(folder \<mapsto> [])) folder prefix =
          Inl (FileNotFoundError ''Downloaded file not found.'')"
proof -
  have r: "read_first_file_by_prefix fs folder prefix = scan_listing listing prefix"
    using assms by (simp add: read_first_file_by_prefix_def)
  have "read_first_file_by_prefix (fs(folder \<mapsto> [])) folder prefix =
          Inl (FileNotFoundError ''Downloaded file not found.'')"
    by (simp add: read_first_file_by_prefix_def)
  then show ?thesis
    unfolding r using scan_listing_raises [of listing prefix] scan_listing_error [of listing prefix]
      scan_listing_first [of prefix listing]
    by blast
qed

text \<open>
  The statement on the example directory with the stem \<open>output.\<close>: the stray file is
  skipped and \<open>output.mkv\<close> is returned as Matroska video; once emptied, the directory
  gives the error.
\<close>

theorem read_first_file_by_prefix_not_found_witness:
  "example_fs ''/tmp/tmpab12'' = Some [(''notes.txt'', [104, 105]), (''output.mkv'', [26, 69, 223, 163])]
   \<and> find (\<lambda>(name, data). startswith name ''output.'')
        [(''notes.txt'', [104, 105 :: 8 word]), (''output.mkv'', [26, 69, 223, 163])]
       = Some (''output.mkv'', [26, 69, 223, 163])
   \<and> read_first_file_by_prefix example_fs ''/tmp/tmpab12'' ''output.'' =
        Inr ([26, 69, 223, 163], ''output.mkv'', ''video/x-matroska'')
   \<and> read_first_file_by_prefix (example_fs(''/tmp/tmpab12'' \<mapsto> [])) ''/tmp/tmpab12'' ''output.'' =
        Inl (FileNotFoundError ''Downloaded file not found.'')"
proof -
  note t = read_first_file_by_prefix_not_found
             [of example_fs "''/tmp/tmpab12''"
                 "[(''notes.txt'', [104, 105]), (''output.mkv'', [26, 69, 223, 163])]" "''output.''",
              OF example_fs_listing]
  have found: "read_first_file_by_prefix example_fs ''/tmp/tmpab12'' ''output.'' =
        Inr ([26, 69, 223, 163], ''output.mkv'', ''video/x-matroska'')"
    using t [THEN conjunct2, THEN conjunct2, THEN conjunct1, THEN spec, THEN spec, THEN mp,
             OF example_fs_find]
    by (simp only: example_mime)
  have empty: "read_first_file_by_prefix (example_fs(''/tmp/tmpab12'' \<mapsto> [])) ''/tmp/tmpab12'' ''output.'' =
        Inl (FileNotFoundError ''Downloaded file not found.'')"
    by (rule t [THEN conjunct2, THEN conjunct2, THEN conjunct2])
  show ?thesis
    using example_fs_listing example_fs_find found empty by (intro conjI)
qed

text \<open>
  With the stem \<open>video.\<close>, a directory that holds \<open>output.mp4\<close> gives the error,
  although a file name of the directory starts with \<open>output.\<close>.
\<close>

theorem read_first_file_by_prefix_counterexample:
  "read_first_file_by_prefix (Map.empty(''/tmp/tmpab12'' \<mapsto> [(''output.mp4'', [0, 1])]))
     ''/tmp/tmpab12'' ''video.'' = Inl (FileNotFoundError ''Downloaded file not found.'')
   \<and> startswith ''output.mp4'' ''output.''"
  by (simp add: read_first_file_by_prefix_def startswith_def)

section \<open>The scratch directory\<close>

lemma with_TemporaryDirectory_removed:
  "snd (with_TemporaryDirectory mkdtemp body fs) =
     (snd (body (mkdtemp fs) (fs(mkdtemp fs \<mapsto> []))))(mkdtemp fs := None)"
  by (simp add: with_TemporaryDirectory_def Let_def split: prod.splits)

text \<open>What the two functions return, by what the extractor did.\<close>

lemma download_video_outcome:
  "fst (download_video ydl mkdtemp url target_height fs) =
     (case ydl (video_opts (mkdtemp fs) target_height) [url] (fs(mkdtemp fs \<mapsto> [])) of
        (Some e, fs') \<Rightarrow> Inl e
      | (None, fs') \<Rightarrow> read_first_file_by_prefix fs' (mkdtemp fs) ''output.'')"
  by (simp add: download_video_def with_TemporaryDirectory_def Let_def split: prod.splits option.splits)

lemma download_audio_outcome:
  "fst (download_audio ydl mkdtemp url target_codec target_quality_kbps fs) =
     (case ydl (audio_opts (mkdtemp fs) target_codec target_quality_kbps) [url] (fs(mkdtemp fs \<mapsto> [])) of
        (Some e, fs') \<Rightarrow> Inl e
      | (None, fs') \<Rightarrow> read_first_file_by_prefix fs' (mkdtemp fs) ''output.'')"
  by (simp add: download_audio_def with_TemporaryDirectory_def Let_def split: prod.splits option.splits)

text \<open>
  The three exits of \<open>download_video\<close> on an empty file system: the extractor raises,
  the output is missing, the output is returned. Each leaves the file system empty.
\<close>

lemma download_video_extractor_failure:
  "download_video failing_extractor example_mkdtemp ''https://example.org/v'' (Some 720) Map.empty =
     (Inl (DownloadError ''Unsupported URL''), Map.empty)"
  by (simp add: download_video_def with_TemporaryDirectory_def failing_extractor_def example_mkdtemp_def)

lemma download_video_missing_output:
  "download_video silent_extractor example_mkdtemp ''https://example.org/v'' (Some 720) Map.empty =
     (Inl (FileNotFoundError ''Downloaded file not found.''), Map.empty)"
  by (simp add: download_video_def with_TemporaryDirectory_def silent_extractor_def example_mkdtemp_def
      read_first_file_by_prefix_def)

lemma download_video_success:
  "download_video writing_extractor example_mkdtemp ''https://example.org/v'' (Some 720) Map.empty =
     (Inr ([0, 1], ''output.mp4'', ''video/mp4''), Map.empty)"
proof -
  have "detect_mime_from_ext (last (split CHR ''.'' ''output.mp4'')) = ''video/mp4''"
    by code_simp
  then show ?thesis
    by (simp add: download_video_def with_TemporaryDirectory_def writing_extractor_def example_mkdtemp_def
        read_first_file_by_prefix_def startswith_def)
qed

text \<open>
  Claim C8: each call of \<open>download_video\<close> and of \<open>download_audio\<close> runs the
  extractor on a file system in which the scratch directory has just been created empty,
  and, whatever the extractor does and whether the call returns a file, fails in the
  extractor or fails for a missing output, the file system after the call is the one the
  extractor left with the scratch directory removed: the scratch directory does not exist
  after the call.
\<close>

theorem scratch_directory_removed:
  "snd (download_video ydl mkdtemp url target_height fs) =
     (snd (ydl (video_opts (mkdtemp fs) target_height) [url] (fs(mkdtemp fs \<mapsto> []))))(mkdtemp fs := None)
   \<and> snd (download_audio ydl mkdtemp url target_codec target_quality_kbps fs) =
     (snd (ydl (audio_opts (mkdtemp fs) target_codec target_quality_kbps) [url] (fs(mkdtemp fs \<mapsto> []))))
       (mkdtemp fs := None)
   \<and> snd (download_video ydl mkdtemp url target_height fs) (mkdtemp fs) = None
   \<and> snd (download_audio ydl mkdtemp url target_codec target_quality_kbps fs) (mkdtemp fs) = None"
  by (simp add: download_video_def download_audio_def with_TemporaryDirectory_removed
      split: prod.splits option.splits)


end
